theory Spec2Isabelle
  imports Main
begin

section \<open>Characters and strings\<close>

text \<open>
  A JavaScript string is a sequence of UTF-16 code units; a code unit is modelled as an
  integer (0 to 65535 for the code units there are) and a string as a list of them.
  \<open>js\<close> turns a literal of the source into such a string.
\<close>

type_synonym jstring = "int list"

definition cu :: "char \<Rightarrow> int" where
  "cu c = of_char c"

definition js :: "string \<Rightarrow> jstring" where
  "js s = map cu s"

definition digitChars :: string where
  "digitChars = ''0123456789''"

definition upperChars :: string where
  "upperChars = ''ABCDEFGHIJKLMNOPQRSTUVWXYZ''"

definition lowerChars :: string where
  "lowerChars = ''abcdefghijklmnopqrstuvwxyz''"

text \<open>
  The white space of ECMAScript, which is the class \<open>\s\<close>, what \<open>trim\<close> strips and what
  \<open>Number\<close> skips: TAB, LF, VT, FF, CR, space, U+00A0, U+1680, U+2000 to U+200A, U+2028,
  U+2029, U+202F, U+205F, U+3000 and U+FEFF.
\<close>

definition spaceUnits :: "int list" where
  "spaceUnits = [0x09, 0x0A, 0x0B, 0x0C, 0x0D, 0x20, 0xA0, 0x1680,
     0x2000, 0x2001, 0x2002, 0x2003, 0x2004, 0x2005, 0x2006, 0x2007, 0x2008, 0x2009, 0x200A,
     0x2028, 0x2029, 0x202F, 0x205F, 0x3000, 0xFEFF]"

definition isDigit :: "int \<Rightarrow> bool" where
  "isDigit c = (c \<in> set (js digitChars))"

definition isSpace :: "int \<Rightarrow> bool" where
  "isSpace c = (c \<in> set spaceUnits)"

definition isWordChar :: "int \<Rightarrow> bool" where
  "isWordChar c = (c \<in> set (js (upperChars @ lowerChars @ digitChars @ ''_'')))"

text \<open>\<open>s.replace(/\D/g, '')\<close>: the digits of \<open>s\<close>, in order.\<close>

definition digitsOnly :: "jstring \<Rightarrow> jstring" where
  "digitsOnly s = filter isDigit s"

text \<open>\<open>Number(c)\<close> for a one-character string: a digit is its value, white space is 0,
  anything else is NaN (\<open>None\<close>).\<close>

definition digitVal :: "int \<Rightarrow> nat" where
  "digitVal c = nat (c - 48)"

definition NumberChar :: "int \<Rightarrow> nat option" where
  "NumberChar c = (if isDigit c then Some (digitVal c) else if isSpace c then Some 0 else None)"

subsection \<open>Upper-casing\<close>

text \<open>
  \<open>String.prototype.toUpperCase\<close> belongs to the JavaScript runtime: it applies the
  case mapping of the Unicode character database, which is no part of the repository.
  Every function that calls it takes it as its first argument \<open>up\<close>. What the proofs
  use of it is collected in \<open>upperCaseLike\<close>:
  \<^item> upper-casing twice is upper-casing once;
  \<^item> an upper-cased text stays upper-cased when ASCII characters other than \<open>a\<close> to \<open>z\<close>
    in it are exchanged for others of that kind;
  \<^item> a text is upper-cased piece by piece where it is cut next to an ASCII character
    (no surrogate pair is cut there);
  \<^item> in ASCII text \<open>a\<close> to \<open>z\<close> become \<open>A\<close> to \<open>Z\<close> and nothing else changes.
\<close>

definition asciiUpper :: "int \<Rightarrow> int" where
  "asciiUpper c = (if 97 \<le> c \<and> c \<le> 122 then c - 32 else c)"

definition caseless :: "int \<Rightarrow> bool" where
  "caseless c = (c < 128 \<and> \<not> (97 \<le> c \<and> c \<le> 122))"

definition upperCaseLike :: "(jstring \<Rightarrow> jstring) \<Rightarrow> bool" where
  "upperCaseLike up =
     ((\<forall>s. up (up s) = up s)
      \<and> (\<forall>s f. up s = s \<and> (\<forall>c. f c \<noteq> c \<longrightarrow> caseless c \<and> caseless (f c))
            \<longrightarrow> up (map f s) = map f s)
      \<and> (\<forall>a b. a = [] \<or> b = [] \<or> last a < 128 \<or> hd b < 128 \<longrightarrow> up (a @ b) = up a @ up b)
      \<and> (\<forall>s. (\<forall>c \<in> set s. c < 128) \<longrightarrow> up s = map asciiUpper s))"

text \<open>
  One instance of \<open>up\<close>, for the places where a definition is evaluated on a given
  text: \<open>toUpperCaseLatin1\<close> agrees with \<open>toUpperCase\<close> on every text of code units
  below 256 (ISO Latin-1). Besides \<open>a\<close> to \<open>z\<close>, U+00B5 becomes U+039C, U+00DF becomes
  \<open>SS\<close>, U+00E0 to U+00FE without U+00F7 lose 32, and U+00FF becomes U+0178. The code
  units from 256 on are left alone, which is not what the runtime does to all of them,
  so it is applied to texts of code units below 256 only.
\<close>

definition upperLatin1 :: "int \<Rightarrow> jstring" where
  "upperLatin1 c =
     (if 97 \<le> c \<and> c \<le> 122 then [c - 32]
      else if c = 0xB5 then [0x39C]
      else if c = 0xDF then [83, 83]
      else if 0xE0 \<le> c \<and> c \<le> 0xFE \<and> c \<noteq> 0xF7 then [c - 32]
      else if c = 0xFF then [0x178]
      else [c])"

definition toUpperCaseLatin1 :: "jstring \<Rightarrow> jstring" where
  "toUpperCaseLatin1 s = concat (map upperLatin1 s)"

section \<open>Regular expressions\<close>

text \<open>
  The regular expressions of \<open>server.js\<close> are kept as terms and run by a backtracking
  matcher with the priorities of the JavaScript one: the alternatives of \<open>|\<close> left to
  right, quantifiers greedy. \<open>Lit\<close> is a literal text and \<open>OneOf\<close> a class of listed
  characters, both written as in the source; \<open>Space\<close> is \<open>\s\<close>. A matcher state is the
  text consumed so far (reversed), the text ahead and the capture groups set so far;
  \<open>ms r st\<close> lists the states in which \<open>r\<close> can end, in the order in which backtracking
  would try them.
\<close>

datatype re =
    Lit string
  | OneOf string
  | Space
  | Seq re re
  | Alt re re
  | Opt re
  | Star re
  | Rep nat nat re
  | Grp nat re
  | Back nat
  | WordB
  | Bol
  | Eol

type_synonym mstate = "jstring \<times> jstring \<times> (nat \<times> jstring) list"

definition msLit :: "jstring \<Rightarrow> mstate \<Rightarrow> mstate list" where
  "msLit w st = (case st of (p, s, g) \<Rightarrow>
     if take (length w) s = w then [(rev w @ p, drop (length w) s, g)] else [])"

definition msClass :: "(int \<Rightarrow> bool) \<Rightarrow> mstate \<Rightarrow> mstate list" where
  "msClass P st = (case st of (p, s, g) \<Rightarrow>
     (case s of [] \<Rightarrow> [] | c # s' \<Rightarrow> if P c then [(c # p, s', g)] else []))"

text \<open>\<open>r{lo,hi}\<close>, greedy: one more round first, stopping only where \<open>lo\<close> rounds are done.\<close>

primrec reps :: "(mstate \<Rightarrow> mstate list) \<Rightarrow> nat \<Rightarrow> nat \<Rightarrow> mstate \<Rightarrow> mstate list" where
  "reps f lo 0 st = (if lo = 0 then [st] else [])"
| "reps f lo (Suc hi) st =
     concat (map (reps f (lo - 1) hi) (f st)) @ (if lo = 0 then [st] else [])"

text \<open>\<open>r*\<close>, greedy. A round that consumes nothing is dropped, as in JavaScript, so
  there are at most as many rounds as characters ahead.\<close>

definition progress :: "mstate \<Rightarrow> mstate \<Rightarrow> bool" where
  "progress st st' = (length (fst (snd st')) < length (fst (snd st)))"

primrec star :: "(mstate \<Rightarrow> mstate list) \<Rightarrow> nat \<Rightarrow> mstate \<Rightarrow> mstate list" where
  "star f 0 st = [st]"
| "star f (Suc n) st = concat (map (star f n) (filter (progress st) (f st))) @ [st]"

definition msGrp :: "nat \<Rightarrow> (mstate \<Rightarrow> mstate list) \<Rightarrow> mstate \<Rightarrow> mstate list" where
  "msGrp n f st = (case st of (p, s, g) \<Rightarrow>
     map (\<lambda>(p', s', g'). (p', s', (n, take (length s - length s') s) # g')) (f st))"

definition msBack :: "nat \<Rightarrow> mstate \<Rightarrow> mstate list" where
  "msBack n st = (case st of (p, s, g) \<Rightarrow>
     (case map_of g n of None \<Rightarrow> [st] | Some w \<Rightarrow> msLit w st))"

definition msWordB :: "mstate \<Rightarrow> mstate list" where
  "msWordB st = (case st of (p, s, g) \<Rightarrow>
     if (p \<noteq> [] \<and> isWordChar (hd p)) \<noteq> (s \<noteq> [] \<and> isWordChar (hd s)) then [st] else [])"

primrec ms :: "re \<Rightarrow> mstate \<Rightarrow> mstate list" where
  "ms (Lit w) = msLit (js w)"
| "ms (OneOf cs) = msClass (\<lambda>c. c \<in> set (js cs))"
| "ms Space = msClass isSpace"
| "ms (Seq a b) = (\<lambda>st. concat (map (ms b) (ms a st)))"
| "ms (Alt a b) = (\<lambda>st. ms a st @ ms b st)"
| "ms (Opt a) = (\<lambda>st. ms a st @ [st])"
| "ms (Star a) = (\<lambda>st. star (ms a) (length (fst (snd st))) st)"
| "ms (Rep lo hi a) = reps (ms a) lo hi"
| "ms (Grp n a) = msGrp n (ms a)"
| "ms (Back n) = msBack n"
| "ms WordB = msWordB"
| "ms Bol = (\<lambda>st. if fst st = [] then [st] else [])"
| "ms Eol = (\<lambda>st. if fst (snd st) = [] then [st] else [])"

fun seqs :: "re list \<Rightarrow> re" where
  "seqs [] = Lit []"
| "seqs [r] = r"
| "seqs (r # rs) = Seq r (seqs rs)"

fun alts :: "re list \<Rightarrow> re" where
  "alts [] = OneOf []"
| "alts [r] = r"
| "alts (r # rs) = Alt r (alts rs)"

text \<open>A match: where it starts, the matched text, and the capture groups.\<close>

record rmatch =
  index :: nat
  matched :: jstring
  groups :: "(nat \<times> jstring) list"

text \<open>One attempt at the position after the (reversed) prefix \<open>p\<close>.\<close>

definition matchAt :: "re \<Rightarrow> jstring \<Rightarrow> jstring \<Rightarrow> rmatch option" where
  "matchAt r p s = (case ms r (p, s, []) of
      [] \<Rightarrow> None
    | (p', s', g) # _ \<Rightarrow>
        Some \<lparr>index = length p, matched = take (length s - length s') s, groups = g\<rparr>)"

text \<open>\<open>r.exec(s)\<close> without the \<open>g\<close> flag: the leftmost position with a match.\<close>

fun searchFrom :: "re \<Rightarrow> jstring \<Rightarrow> jstring \<Rightarrow> rmatch option" where
  "searchFrom r p [] = matchAt r p []"
| "searchFrom r p (c # cs) =
     (case matchAt r p (c # cs) of Some m \<Rightarrow> Some m | None \<Rightarrow> searchFrom r (c # p) cs)"

definition test :: "re \<Rightarrow> jstring \<Rightarrow> bool" where
  "test r s = (searchFrom r [] s \<noteq> None)"

text \<open>
  All matches of a \<open>g\<close> regular expression, left to right, each search resuming where
  the last match ended (\<open>s.match(r)\<close>, and the \<open>while (match) ... r.exec(s)\<close> loops,
  which start and end with \<open>lastIndex = 0\<close>). The third argument counts the characters
  still covered by the last match. None of the \<open>g\<close> expressions of \<open>server.js\<close> matches
  the empty string, so no match can start at the very end of the text.
\<close>

fun allFrom :: "re \<Rightarrow> jstring \<Rightarrow> jstring \<Rightarrow> nat \<Rightarrow> rmatch list" where
  "allFrom r p [] k = []"
| "allFrom r p (c # cs) (Suc k) = allFrom r (c # p) cs k"
| "allFrom r p (c # cs) 0 =
     (case matchAt r p (c # cs) of
        None \<Rightarrow> allFrom r (c # p) cs 0
      | Some m \<Rightarrow> m # allFrom r (c # p) cs (length (matched m) - 1))"

definition allMatches :: "re \<Rightarrow> jstring \<Rightarrow> rmatch list" where
  "allMatches r s = allFrom r [] s 0"

text \<open>\<open>match[n]\<close>; a group that took no part in the match is \<open>undefined\<close>.\<close>

definition grp :: "rmatch \<Rightarrow> nat \<Rightarrow> jstring option" where
  "grp m n = map_of (groups m) n"

section \<open>Normalizer\<close>

text \<open>
  \<open>normalizeDigitLikeText\<close>: upper-case, then the six \<open>replace\<close> calls in order. Each
  rewrites single characters to a digit that no later call touches.
\<close>

definition replaceChars :: "string \<Rightarrow> char \<Rightarrow> jstring \<Rightarrow> jstring" where
  "replaceChars cs d s = map (\<lambda>c. if c \<in> set (js cs) then cu d else c) s"

definition normalizeDateDigits :: "jstring \<Rightarrow> jstring" where
  "normalizeDateDigits v =
     replaceChars ''G'' CHR ''6''
       (replaceChars ''Z'' CHR ''2''
         (replaceChars ''B'' CHR ''8''
           (replaceChars ''S'' CHR ''5''
             (replaceChars ''IL|'' CHR ''1''
               (replaceChars ''OQD'' CHR ''0'' v)))))"

definition normalizeDigitLikeText :: "(jstring \<Rightarrow> jstring) \<Rightarrow> jstring \<Rightarrow> jstring" where
  "normalizeDigitLikeText up rawText = normalizeDateDigits (up rawText)"

section \<open>Luhn checksum\<close>

text \<open>
  The loop of \<open>luhnCheck\<close> runs from the last character to the first; \<open>luhnLoop\<close> takes
  the characters in that order, with the running sum \<open>acc\<close> (\<open>None\<close> once it is NaN) and
  \<open>shouldDouble\<close>.
\<close>

fun luhnLoop :: "jstring \<Rightarrow> nat option \<Rightarrow> bool \<Rightarrow> nat option" where
  "luhnLoop [] acc shouldDouble = acc"
| "luhnLoop (c # cs) acc shouldDouble =
     luhnLoop cs
       (case (acc, NumberChar c) of
          (Some s, Some d) \<Rightarrow>
            Some (s + (if shouldDouble then (if 2 * d > 9 then 2 * d - 9 else 2 * d) else d))
        | _ \<Rightarrow> None)
       (\<not> shouldDouble)"

definition luhnCheck :: "jstring \<Rightarrow> bool" where
  "luhnCheck cardNumber =
     (case luhnLoop (rev cardNumber) (Some 0) False of
        Some n \<Rightarrow> n mod 10 = 0
      | None \<Rightarrow> False)"

section \<open>Network detection\<close>

datatype cardType = VISA | MASTERCARD | RUPAY | AMEX | DISCOVER | UNKNOWN

definition anyDigit :: re where
  "anyDigit = OneOf digitChars"

text \<open>\<open>/^4/\<close>\<close>
definition visaRe :: re where
  "visaRe = seqs [Bol, Lit ''4'']"

text \<open>\<open>/^(5[1-5]|2(2[2-9]|[3-6]\d|7[01]|720))/\<close>\<close>
definition mastercardRe :: re where
  "mastercardRe = seqs [Bol,
     Grp 1 (alts [
       seqs [Lit ''5'', OneOf ''12345''],
       seqs [Lit ''2'', Grp 2 (alts [
         seqs [Lit ''2'', OneOf ''23456789''],
         seqs [OneOf ''3456'', anyDigit],
         seqs [Lit ''7'', OneOf ''01''],
         Lit ''720''])]])]"

text \<open>\<open>/^(60|65|81|82|508)/\<close>\<close>
definition rupayRe :: re where
  "rupayRe = seqs [Bol, Grp 1 (alts [Lit ''60'', Lit ''65'', Lit ''81'', Lit ''82'', Lit ''508''])]"

text \<open>\<open>/^3[47]/\<close>\<close>
definition amexRe :: re where
  "amexRe = seqs [Bol, Lit ''3'', OneOf ''47'']"

text \<open>\<open>/^6(?:011|5)/\<close>\<close>
definition discoverRe :: re where
  "discoverRe = seqs [Bol, Lit ''6'', alts [Lit ''011'', Lit ''5'']]"

definition detectCardType :: "jstring \<Rightarrow> cardType" where
  "detectCardType cardNumber =
     (let bin = digitsOnly cardNumber in
      if test visaRe bin then VISA
      else if test mastercardRe bin then MASTERCARD
      else if test rupayRe bin then RUPAY
      else if test amexRe bin then AMEX
      else if test discoverRe bin then DISCOVER
      else UNKNOWN)"

section \<open>Card number extraction\<close>

definition MAX_CARD_DIGITS :: nat where
  "MAX_CARD_DIGITS = 16"

text \<open>\<open>/(?:\d[ -]?){13,16}/g\<close>\<close>
definition cardGroupRe :: re where
  "cardGroupRe = Rep 13 16 (Seq anyDigit (Opt (OneOf '' -'')))"

text \<open>The \<open>for (const group of candidateGroups)\<close> loop; \<open>None\<close> when it falls through.\<close>

fun firstValidGroup :: "jstring list \<Rightarrow> jstring option" where
  "firstValidGroup [] = None"
| "firstValidGroup (candidateGroup # rest) =
     (let digits = digitsOnly candidateGroup in
      if length digits \<ge> 13 \<and> length digits \<le> MAX_CARD_DIGITS \<and> luhnCheck digits
      then Some digits
      else firstValidGroup rest)"

text \<open>\<open>s.slice(start, end)\<close> for \<open>0 \<le> start \<le> end\<close>.\<close>

definition slice :: "jstring \<Rightarrow> nat \<Rightarrow> nat \<Rightarrow> jstring" where
  "slice s start end = take (end - start) (drop start s)"

text \<open>
  The pairs \<open>(start, len)\<close> in the order in which the two nested loops of the fallback
  visit them: \<open>start\<close> from 0 while \<open>start \<le> n - 13\<close>, and for each \<open>start\<close> the length
  from \<open>min(16, n - start)\<close> down to 13.
\<close>

definition windows :: "nat \<Rightarrow> (nat \<times> nat) list" where
  "windows n =
     concat (map (\<lambda>start. map (\<lambda>len. (start, len))
                   (rev [13 ..< Suc (min MAX_CARD_DIGITS (n - start))]))
                 [0 ..< Suc n - 13])"

definition slidingWindow :: "jstring \<Rightarrow> jstring option" where
  "slidingWindow allDigits =
     find luhnCheck
       (map (\<lambda>(start, len). slice allDigits start (start + len)) (windows (length allDigits)))"

definition extractCardNumber :: "(jstring \<Rightarrow> jstring) \<Rightarrow> jstring \<Rightarrow> jstring" where
  "extractCardNumber up rawText =
     (let compactText = normalizeDigitLikeText up rawText;
          candidateGroups = map matched (allMatches cardGroupRe compactText)
      in case firstValidGroup candidateGroups of
           Some digits \<Rightarrow> digits
         | None \<Rightarrow>
             (let allDigits = digitsOnly compactText
              in case slidingWindow allDigits of
                   Some candidate \<Rightarrow> candidate
                 | None \<Rightarrow> []))"

section \<open>Masking\<close>

text \<open>
  The masked number is a list of glyphs, each the mask bullet (U+2022) or a code unit
  of the card number.
\<close>

datatype glyph = Bullet | Ch int

definition maskPrefix :: "glyph list" where
  "maskPrefix =
     [Bullet, Bullet, Bullet, Bullet, Ch (cu CHR '' ''),
      Bullet, Bullet, Bullet, Bullet, Ch (cu CHR '' ''),
      Bullet, Bullet, Bullet, Bullet, Ch (cu CHR '' '')]"

text \<open>\<open>s.slice(-4)\<close>: the last four characters, or all of a shorter \<open>s\<close>.\<close>

definition lastFour :: "jstring \<Rightarrow> jstring" where
  "lastFour s = drop (length s - 4) s"

definition maskCardNumber :: "jstring \<Rightarrow> glyph list" where
  "maskCardNumber cardNumber =
     (if cardNumber = [] \<or> length cardNumber < 4 then []
      else maskPrefix @ map Ch (lastFour cardNumber))"

section \<open>Expiry extraction\<close>

text \<open>
  \<open>s.split(/\r?\n/)\<close>: a line ends at each line feed, and a carriage return right
  before that line feed belongs to the separator. \<open>cur\<close> is the current line, reversed.
\<close>

fun splitLinesAcc :: "jstring \<Rightarrow> jstring \<Rightarrow> jstring list" where
  "splitLinesAcc cur [] = [rev cur]"
| "splitLinesAcc cur (c # cs) =
     (if c = 0x0A
      then rev (if cur \<noteq> [] \<and> hd cur = 0x0D then tl cur else cur) # splitLinesAcc [] cs
      else splitLinesAcc (c # cur) cs)"

definition trim :: "jstring \<Rightarrow> jstring" where
  "trim s = rev (dropWhile isSpace (rev (dropWhile isSpace s)))"

text \<open>\<open>text.toUpperCase().split(/\r?\n/).map((line) => line.trim()).filter(Boolean)\<close>\<close>

definition textLines :: "(jstring \<Rightarrow> jstring) \<Rightarrow> jstring \<Rightarrow> jstring list" where
  "textLines up rawText =
     filter (\<lambda>line. line \<noteq> []) (map trim (splitLinesAcc [] (up rawText)))"

text \<open>\<open>/([0O][1-9]|1[0-2])\s*[-\/]\s*([0-9OQDIL|SBZG]{2,4})/g\<close>\<close>
definition dateRegex :: re where
  "dateRegex = seqs [
     Grp 1 (alts [seqs [OneOf ''0O'', OneOf ''123456789''], seqs [Lit ''1'', OneOf ''012'']]),
     Star Space, OneOf ''-/'', Star Space,
     Grp 2 (Rep 2 4 (OneOf ''0123456789OQDIL|SBZG''))]"

text \<open>\<open>/(VALID\s*THRU|VALIDTHRU|THRU|THROUGH|\bEXP\b|EXPIRY|EXPIRES?|MM\s*\/?\s*YY|MONTH\s*\/?\s*YEAR)/\<close>\<close>
definition thruKeywordRegex :: re where
  "thruKeywordRegex = Grp 1 (alts [
     seqs [Lit ''VALID'', Star Space, Lit ''THRU''],
     Lit ''VALIDTHRU'',
     Lit ''THRU'',
     Lit ''THROUGH'',
     seqs [WordB, Lit ''EXP'', WordB],
     Lit ''EXPIRY'',
     seqs [Lit ''EXPIRE'', Opt (Lit ''S'')],
     seqs [Lit ''MM'', Star Space, Opt (Lit ''/''), Star Space, Lit ''YY''],
     seqs [Lit ''MONTH'', Star Space, Opt (Lit ''/''), Star Space, Lit ''YEAR'']])"

text \<open>\<open>/(VALID\s*FROM|VALIDFROM|\bFROM\b|ISSUED?|SINCE|START)/\<close>\<close>
definition fromKeywordRegex :: re where
  "fromKeywordRegex = Grp 1 (alts [
     seqs [Lit ''VALID'', Star Space, Lit ''FROM''],
     Lit ''VALIDFROM'',
     seqs [WordB, Lit ''FROM'', WordB],
     seqs [Lit ''ISSUE'', Opt (Lit ''D'')],
     Lit ''SINCE'',
     Lit ''START''])"

text \<open>\<open>/^(0[1-9]|1[0-2])$/\<close>\<close>
definition monthRe :: re where
  "monthRe = seqs [Bol,
     Grp 1 (alts [seqs [Lit ''0'', OneOf ''123456789''], seqs [Lit ''1'', OneOf ''012'']]),
     Eol]"

text \<open>\<open>/^\d{2,4}$/\<close>\<close>
definition yearRe :: re where
  "yearRe = seqs [Bol, Rep 2 4 anyDigit, Eol]"

text \<open>\<open>s.slice(-2)\<close>\<close>
definition lastTwo :: "jstring \<Rightarrow> jstring" where
  "lastTwo s = drop (length s - 2) s"

definition toExpiry :: "jstring \<Rightarrow> jstring \<Rightarrow> jstring" where
  "toExpiry monthRaw yearRaw =
     (let month = normalizeDateDigits monthRaw;
          yearClean = normalizeDateDigits yearRaw
      in if \<not> test monthRe month then []
         else if \<not> test yearRe yearClean then []
         else (let year = (if length yearClean = 4 then lastTwo yearClean else yearClean)
               in month @ js ''/'' @ year))"

text \<open>\<open>match[n] || ''\<close>\<close>
definition grpOr :: "rmatch \<Rightarrow> nat \<Rightarrow> jstring" where
  "grpOr m n = (case grp m n of Some v \<Rightarrow> v | None \<Rightarrow> [])"

text \<open>\<open>collectDateMatches\<close>: the objects \<open>{ expiry, index }\<close> as pairs.\<close>

definition collectDateMatches :: "jstring \<Rightarrow> (jstring \<times> nat) list" where
  "collectDateMatches line =
     concat (map (\<lambda>m. let expiry = toExpiry (grpOr m 1) (grpOr m 2)
                       in if expiry \<noteq> [] then [(expiry, index m)] else [])
                 (allMatches dateRegex line))"

definition getPositions :: "jstring \<Rightarrow> re \<Rightarrow> nat list" where
  "getPositions line regex = map index (allMatches regex line)"

text \<open>\<open>Math.min(...xs)\<close>; \<open>None\<close> is the \<open>Infinity\<close> of an empty list.\<close>

fun minList :: "nat list \<Rightarrow> nat option" where
  "minList [] = None"
| "minList (x # xs) = Some (fold min xs x)"

definition absDiff :: "nat \<Rightarrow> nat \<Rightarrow> nat" where
  "absDiff a b = (if a \<ge> b then a - b else b - a)"

definition nearestDistance :: "nat \<Rightarrow> nat list \<Rightarrow> nat option" where
  "nearestDistance target positions = minList (map (\<lambda>position. absDiff target position) positions)"

definition dateScore :: "jstring list \<Rightarrow> nat \<Rightarrow> nat list \<Rightarrow> nat list \<Rightarrow> nat \<Rightarrow> int" where
  "dateScore lines lineIndex thruPositions fromPositions position =
     (let prevLine = (if lineIndex > 0 then lines ! (lineIndex - 1) else []);
          nextLine = (if lineIndex + 1 < length lines then lines ! (lineIndex + 1) else []);
          thruDistance = nearestDistance position thruPositions;
          fromDistance = nearestDistance position fromPositions
      in (case thruDistance of Some d \<Rightarrow> max 0 (80 - int d) | None \<Rightarrow> 0)
       - (case fromDistance of Some d \<Rightarrow> max 0 (90 - int d) | None \<Rightarrow> 0)
       + (case minList thruPositions of
            Some first \<Rightarrow> if position \<ge> first then 16 else 0 | None \<Rightarrow> 0)
       - (case minList fromPositions of
            Some first \<Rightarrow> if position \<ge> first then 24 else 0 | None \<Rightarrow> 0)
       + (if prevLine \<noteq> [] \<and> test thruKeywordRegex prevLine then 22 else 0)
       - (if prevLine \<noteq> [] \<and> test fromKeywordRegex prevLine then 18 else 0)
       + (if nextLine \<noteq> [] \<and> test thruKeywordRegex nextLine then 8 else 0)
       - (if nextLine \<noteq> [] \<and> test fromKeywordRegex nextLine then 8 else 0))"

record candidate =
  expiry :: jstring
  score :: int
  lineIndex :: nat
  position :: nat

text \<open>The body of \<open>lines.forEach((line, lineIndex) => ...)\<close>: the candidates that line
  \<open>i\<close> adds.\<close>

definition lineCandidates :: "jstring list \<Rightarrow> nat \<Rightarrow> candidate list" where
  "lineCandidates lines i =
     (let line = lines ! i;
          thruPositions = getPositions line thruKeywordRegex;
          fromPositions = getPositions line fromKeywordRegex
      in concat (map (\<lambda>m.
           let e = toExpiry (grpOr m 1) (grpOr m 2)
           in if e = [] then []
              else [\<lparr>expiry = e,
                     score = dateScore lines i thruPositions fromPositions (index m),
                     lineIndex = i,
                     position = index m\<rparr>])
           (allMatches dateRegex line)))"

definition allCandidates :: "jstring list \<Rightarrow> candidate list" where
  "allCandidates lines = concat (map (lineCandidates lines) [0 ..< length lines])"

text \<open>
  The first loop: a line with a "from" and a "thru" keyword and two or more dates on it
  (or none on it and two or more on the next line) decides the result at once.
\<close>

fun pairedLine :: "jstring list \<Rightarrow> jstring option" where
  "pairedLine [] = None"
| "pairedLine (line # rest) =
     (let sameLineDates = collectDateMatches line;
          hasFrom = test fromKeywordRegex line;
          hasThru = test thruKeywordRegex line
      in if hasFrom \<and> hasThru \<and> length sameLineDates \<ge> 2
         then Some (fst (last sameLineDates))
         else (let nextLine = (case rest of [] \<Rightarrow> [] | l # _ \<Rightarrow> l);
                   nextLineDates = (if nextLine \<noteq> [] then collectDateMatches nextLine else [])
               in if hasFrom \<and> hasThru \<and> sameLineDates = [] \<and> length nextLineDates \<ge> 2
                  then Some (fst (last nextLineDates))
                  else pairedLine rest))"

text \<open>\<open>s.split(sep)\<close> for a one-character separator.\<close>

fun splitAcc :: "int \<Rightarrow> jstring \<Rightarrow> jstring \<Rightarrow> jstring list" where
  "splitAcc sep cur [] = [rev cur]"
| "splitAcc sep cur (c # cs) =
     (if c = sep then rev cur # splitAcc sep [] cs else splitAcc sep (c # cur) cs)"

definition split :: "jstring \<Rightarrow> char \<Rightarrow> jstring list" where
  "split s sep = splitAcc (cu sep) [] s"

text \<open>\<open>Number(s)\<close> for a string of decimal digits.\<close>

definition NumberStr :: "jstring \<Rightarrow> nat" where
  "NumberStr s = foldl (\<lambda>n c. 10 * n + digitVal c) 0 s"

text \<open>
  \<open>const [month, year] = e.split('/').map(Number)\<close>. An expiry built by \<open>toExpiry\<close> is
  two digits, a slash and two to four digits, so both parts are there and are digit
  strings.
\<close>

definition monthYear :: "jstring \<Rightarrow> nat \<times> nat" where
  "monthYear e = (case split e CHR ''/'' of
      m # y # _ \<Rightarrow> (NumberStr m, NumberStr y)
    | _ \<Rightarrow> (0, 0))"

definition compareExpiry :: "candidate \<Rightarrow> candidate \<Rightarrow> int" where
  "compareExpiry a b =
     (case (monthYear (expiry a), monthYear (expiry b)) of
        ((aMonth, aYear), (bMonth, bYear)) \<Rightarrow>
          if aYear \<noteq> bYear then int bYear - int aYear else int bMonth - int aMonth)"

definition compareScore :: "candidate \<Rightarrow> candidate \<Rightarrow> int" where
  "compareScore a b =
     (if score b \<noteq> score a then score b - score a
      else if lineIndex b \<noteq> lineIndex a then int (lineIndex b) - int (lineIndex a)
      else int (position b) - int (position a))"

text \<open>
  \<open>Array.prototype.sort\<close> is a stable sort: with a comparator that orders the elements
  consistently, as both comparators here do, its result is the one of insertion sort.
\<close>

fun insertBy :: "('a \<Rightarrow> 'a \<Rightarrow> int) \<Rightarrow> 'a \<Rightarrow> 'a list \<Rightarrow> 'a list" where
  "insertBy cmp x [] = [x]"
| "insertBy cmp x (y # ys) = (if cmp x y \<le> 0 then x # y # ys else y # insertBy cmp x ys)"

definition sortBy :: "('a \<Rightarrow> 'a \<Rightarrow> int) \<Rightarrow> 'a list \<Rightarrow> 'a list" where
  "sortBy cmp xs = foldr (insertBy cmp) xs []"

definition extractExpiry :: "(jstring \<Rightarrow> jstring) \<Rightarrow> jstring \<Rightarrow> jstring" where
  "extractExpiry up rawText =
     (let lines = textLines up rawText
      in case pairedLine lines of
           Some e \<Rightarrow> e
         | None \<Rightarrow>
             (let candidates = allCandidates lines
              in if candidates = [] then []
                 else if length candidates > 1
                 then (case sortBy compareExpiry candidates of
                         latest # _ \<Rightarrow> expiry latest | [] \<Rightarrow> [])
                 else (case sortBy compareScore candidates of
                         best # _ \<Rightarrow> expiry best | [] \<Rightarrow> [])))"

section \<open>Cardholder name extraction\<close>

definition blockedWords :: "jstring list" where
  "blockedWords = map js [
     ''VALID'', ''THRU'', ''THROUGH'', ''FROM'', ''MONTH'', ''YEAR'', ''EXP'', ''EXPIRES'',
     ''CARD'', ''DEBIT'', ''CREDIT'', ''BANK'', ''VISA'', ''MASTERCARD'', ''RUPAY'',
     ''AMEX'', ''DISCOVER'', ''PLATINUM'', ''SIGNATURE'', ''CLASSIC'', ''GOLD'', ''WORLD'',
     ''ELECTRON'', ''PAY'', ''MEMBER'', ''SINCE'', ''CORP'', ''LIMITED'', ''LTD'',
     ''PRIVATE'', ''BUSINESS'', ''AZADI'', ''AMRIT'', ''MAHOTSAV'', ''INDIA'']"

definition removablePrefixes :: "jstring list" where
  "removablePrefixes = map js [''MR'', ''MRS'', ''MS'', ''MISS'', ''DR'', ''SHRI'', ''SMT'']"

text \<open>\<open>/(VALID|THRU|THROUGH|EXP|MONTH|YEAR|MM\/?YY|DEBIT|CREDIT|CARD)/\<close>\<close>
definition anchorPattern :: re where
  "anchorPattern = Grp 1 (alts [
     Lit ''VALID'', Lit ''THRU'', Lit ''THROUGH'', Lit ''EXP'', Lit ''MONTH'', Lit ''YEAR'',
     seqs [Lit ''MM'', Opt (Lit ''/''), Lit ''YY''],
     Lit ''DEBIT'', Lit ''CREDIT'', Lit ''CARD''])"

text \<open>\<open>/(0[1-9]|1[0-2])\s*[\/-]\s*(\d{2}|\d{4})/\<close>\<close>
definition expiryLineRe :: re where
  "expiryLineRe = seqs [
     Grp 1 (alts [seqs [Lit ''0'', OneOf ''123456789''], seqs [Lit ''1'', OneOf ''012'']]),
     Star Space, OneOf ''/-'', Star Space,
     Grp 2 (alts [Rep 2 2 anyDigit, Rep 4 4 anyDigit])]"

text \<open>\<open>/[AEIOU]/\<close>\<close>
definition vowelRe :: re where
  "vowelRe = OneOf ''AEIOU''"

text \<open>\<open>/^[A-Z\s]+$/\<close>\<close>
definition upperOnlyRe :: re where
  "upperOnlyRe = seqs [Bol, Alt (OneOf upperChars) Space, Star (Alt (OneOf upperChars) Space), Eol]"

text \<open>\<open>/([A-Z])\1{2,}/\<close>\<close>
definition repeatedRe :: re where
  "repeatedRe = seqs [Grp 1 (OneOf upperChars), Back 1, Back 1, Star (Back 1)]"

definition anchorIndices :: "jstring list \<Rightarrow> nat list" where
  "anchorIndices lines =
     filter (\<lambda>i. test anchorPattern (lines ! i) \<or> test expiryLineRe (lines ! i)) [0 ..< length lines]"

definition cardNumberIndices :: "jstring list \<Rightarrow> nat list" where
  "cardNumberIndices lines =
     filter (\<lambda>i. length (digitsOnly (lines ! i)) \<ge> 13 \<and>
                 length (digitsOnly (lines ! i)) \<le> MAX_CARD_DIGITS) [0 ..< length lines]"

definition expiryIndices :: "jstring list \<Rightarrow> nat list" where
  "expiryIndices lines = filter (\<lambda>i. test expiryLineRe (lines ! i)) [0 ..< length lines]"

text \<open>\<open>s.replace(/\s+/g, ' ')\<close>; the flag says whether the last character was whitespace.\<close>

fun collapseSpaces :: "bool \<Rightarrow> jstring \<Rightarrow> jstring" where
  "collapseSpaces inRun [] = []"
| "collapseSpaces inRun (c # cs) =
     (if isSpace c
      then (if inRun then collapseSpaces True cs else cu CHR '' '' # collapseSpaces True cs)
      else c # collapseSpaces False cs)"

definition normalizeNameLine :: "jstring \<Rightarrow> jstring" where
  "normalizeNameLine line =
     trim (collapseSpaces False
       (map (\<lambda>c. if c \<in> set (js upperChars) \<or> isSpace c then c else cu CHR '' '')
         (replaceChars ''8'' CHR ''B''
           (replaceChars ''5'' CHR ''S''
             (replaceChars ''1'' CHR ''I''
               (replaceChars ''0'' CHR ''O'' line))))))"

text \<open>\<open>words.join(' ')\<close>\<close>

fun joinWords :: "jstring list \<Rightarrow> jstring" where
  "joinWords [] = []"
| "joinWords [w] = w"
| "joinWords (w # v # rest) = w @ js '' '' @ joinWords (v # rest)"

text \<open>\<open>xs.reduce((closest, current) => |current - index| < |closest - index| ? current : closest)\<close>
  on a list that is not empty.\<close>

fun nearestTo :: "nat \<Rightarrow> nat list \<Rightarrow> nat option" where
  "nearestTo i [] = None"
| "nearestTo i (x # xs) =
     Some (foldl (\<lambda>closest current.
             if absDiff current i < absDiff closest i then current else closest) x xs)"

text \<open>
  The score of the candidate \<open>words\<close> found on line \<open>i\<close>. \<open>avgLen\<close> is a quotient of two
  small integers, so \<open>avgLen >= 3 && avgLen <= 8\<close> is compared without dividing.
\<close>

definition nameScore :: "jstring list \<Rightarrow> nat \<Rightarrow> jstring list \<Rightarrow> int" where
  "nameScore lines i words =
     (let fullName = joinWords words;
          letters = length (filter (\<lambda>c. \<not> isSpace c) fullName)
      in (if length words = 2 \<or> length words = 3 then 5 else 0)
       + (if length words = 4 then 2 else 0)
       + (if letters \<ge> 3 * length words \<and> letters \<le> 8 * length words then 3 else 0)
       + (if test upperOnlyRe fullName then 2 else 0)
       + (case nearestDistance i (anchorIndices lines) of
            None \<Rightarrow> 0
          | Some minDistance \<Rightarrow> if minDistance \<le> 2 then 3 else if minDistance \<le> 4 then 1 else 0)
       + (case nearestTo i (cardNumberIndices lines) of
            None \<Rightarrow> 0
          | Some nearestCardIndex \<Rightarrow>
              (if i > nearestCardIndex \<and> i - nearestCardIndex \<le> 6 then 4 else 0)
              - (if i < nearestCardIndex then 2 else 0))
       + (case nearestTo i (expiryIndices lines) of
            None \<Rightarrow> 0
          | Some nearestExpiryIndex \<Rightarrow>
              (if i > nearestExpiryIndex \<and> i - nearestExpiryIndex \<le> 4 then 3 else 0))
       - (if test repeatedRe fullName then 3 else 0))"

text \<open>
  The body of the second \<open>lines.forEach\<close>: the name and score that line \<open>i\<close> offers, or
  \<open>None\<close> where the callback returns early.
\<close>

definition nameCandidate :: "jstring list \<Rightarrow> nat \<Rightarrow> (jstring \<times> int) option" where
  "nameCandidate lines i =
     (let normalized = normalizeNameLine (lines ! i)
      in if normalized = [] \<or> length normalized < 5 \<or> length normalized > 40 then None
         else (let words0 = filter (\<lambda>w. w \<noteq> []) (split normalized CHR '' '')
               in if words0 = [] then None
                  else (let words = (if hd words0 \<in> set removablePrefixes then tl words0 else words0)
                        in if length words < 2 \<or> length words > 4 then None
                           else if list_ex (\<lambda>word. length word < 2 \<or> length word > 14) words then None
                           else if list_ex (\<lambda>word. word \<in> set blockedWords) words then None
                           else if \<not> list_all (\<lambda>word. test vowelRe word) words then None
                           else Some (joinWords words, nameScore lines i words))))"

definition nameCandidates :: "jstring list \<Rightarrow> (jstring \<times> int) list" where
  "nameCandidates lines =
     concat (map (\<lambda>i. case nameCandidate lines i of None \<Rightarrow> [] | Some c \<Rightarrow> [c])
                 [0 ..< length lines])"

text \<open>\<open>bestCandidate\<close> and \<open>bestScore\<close>; \<open>None\<close> is the initial \<open>-Infinity\<close>.\<close>

definition better :: "jstring \<times> int option \<Rightarrow> jstring \<times> int \<Rightarrow> jstring \<times> int option" where
  "better best c =
     (case snd best of
        None \<Rightarrow> (fst c, Some (snd c))
      | Some bestScore \<Rightarrow> if snd c > bestScore then (fst c, Some (snd c)) else best)"

definition extractCardholderName :: "(jstring \<Rightarrow> jstring) \<Rightarrow> jstring \<Rightarrow> jstring" where
  "extractCardholderName up rawText =
     (case foldl better ([], None) (nameCandidates (textLines up rawText)) of
        (bestCandidate, Some bestScore) \<Rightarrow> if bestScore > 0 then bestCandidate else []
      | (bestCandidate, None) \<Rightarrow> [])"

section \<open>Sessions and the two session endpoints\<close>

record cardRecord =
  cardNumber :: jstring
  maskedCardNumber :: "glyph list"
  cardholderName :: jstring
  expiryDate :: jstring
  cardType :: cardType
  scannedAt :: nat
  deliveredAt :: "nat option"

datatype status = pending | ready

record session =
  createdAt :: nat
  expiresAt :: nat
  status :: status
  data :: "cardRecord option"

text \<open>\<open>scanSessions\<close>, the map from session id to session.\<close>

type_synonym sessions = "string \<rightharpoonup> session"

definition SESSION_TTL_MS :: nat where
  "SESSION_TTL_MS = 5 * 60 * 1000"

definition cleanupExpiredSessions :: "nat \<Rightarrow> sessions \<Rightarrow> sessions" where
  "cleanupExpiredSessions now scanSessions =
     (\<lambda>sessionId. case scanSessions sessionId of
        None \<Rightarrow> None
      | Some s \<Rightarrow> if expiresAt s \<le> now then None else Some s)"

text \<open>
  A response: an error with its HTTP status and message (\<open>ok: false\<close>), or one of the
  three \<open>ok: true\<close> bodies.
\<close>

datatype response =
    Failure nat string
  | Scanned "glyph list" jstring jstring cardType
  | Pending
  | Ready cardRecord

text \<open>
  \<open>POST /api/scan\<close>, as one step on the session map. \<open>sessionId\<close> is \<open>None\<close> when the
  request has none, \<open>hasImage\<close> says whether \<open>req.file.buffer\<close> is there, \<open>ocr\<close> is the
  outcome of \<open>runVisionOCR\<close> (\<open>Inl\<close> the message of the error it threw, \<open>Inr\<close> the text),
  \<open>now\<close> is the clock at the expiry check and \<open>scanTime\<close> the clock at the write, after
  the wait for \<open>runVisionOCR\<close>: the session is not checked again there. \<open>up\<close> is the
  runtime's \<open>toUpperCase\<close>.
\<close>

definition scanHandler ::
  "(jstring \<Rightarrow> jstring) \<Rightarrow> sessions \<Rightarrow> string option \<Rightarrow> bool \<Rightarrow> string + jstring \<Rightarrow> nat \<Rightarrow> nat
     \<Rightarrow> response \<times> sessions" where
  "scanHandler up scanSessions sessionId hasImage ocr now scanTime =
     (case sessionId of
        None \<Rightarrow> (Failure 400 ''Missing sessionId'', scanSessions)
      | Some sid \<Rightarrow>
          if sid = [] then (Failure 400 ''Missing sessionId'', scanSessions)
          else (case scanSessions sid of
            None \<Rightarrow> (Failure 404 ''Session not found/expired'', scanSessions)
          | Some s \<Rightarrow>
              if expiresAt s \<le> now
              then (Failure 410 ''Session expired'', scanSessions(sid := None))
              else if \<not> hasImage then (Failure 400 ''No image uploaded'', scanSessions)
              else (case ocr of
                Inl message \<Rightarrow>
                  (Failure 500 (if message = [] then ''Scan failed'' else message), scanSessions)
              | Inr ocrText \<Rightarrow>
                  (let number = extractCardNumber up ocrText;
                       expiryText = extractExpiry up ocrText;
                       name = extractCardholderName up ocrText
                   in if number = []
                      then (Failure 422
                              ''Card number not detected. Please capture again with better lighting.'',
                            scanSessions)
                      else if length number > MAX_CARD_DIGITS
                      then (Failure 422 ''Card number must be 16 digits or less.'', scanSessions)
                      else (let cardRec = \<lparr>cardNumber = number,
                                            maskedCardNumber = maskCardNumber number,
                                            cardholderName = name,
                                            expiryDate = expiryText,
                                            cardType = detectCardType number,
                                            scannedAt = scanTime,
                                            deliveredAt = None\<rparr>
                            in (Scanned (maskedCardNumber cardRec) (cardholderName cardRec)
                                  (expiryDate cardRec) (cardType cardRec),
                                scanSessions(sid \<mapsto> s\<lparr>status := ready, data := Some cardRec\<rparr>)))))))"

text \<open>
  \<open>GET /api/get-data\<close>. \<open>sweepTime\<close> is the clock read by \<open>cleanupExpiredSessions\<close>,
  \<open>now\<close> the later reading at the handler's own expiry check, \<open>pollTime\<close> the one
  written to \<open>deliveredAt\<close>. The payload holds the session's own record object, so a
  \<open>deliveredAt\<close> set by this request is in the response.
\<close>

definition getDataHandler ::
  "sessions \<Rightarrow> string option \<Rightarrow> nat \<Rightarrow> nat \<Rightarrow> nat \<Rightarrow> response \<times> sessions" where
  "getDataHandler scanSessions0 sessionId sweepTime now pollTime =
     (let scanSessions = cleanupExpiredSessions sweepTime scanSessions0
      in case sessionId of
        None \<Rightarrow> (Failure 400 ''Missing sessionId'', scanSessions)
      | Some sid \<Rightarrow>
          if sid = [] then (Failure 400 ''Missing sessionId'', scanSessions)
          else (case scanSessions sid of
            None \<Rightarrow> (Failure 404 ''Session not found/expired'', scanSessions)
          | Some s \<Rightarrow>
              if expiresAt s \<le> now
              then (Failure 410 ''Session expired'', scanSessions(sid := None))
              else (case data s of
                None \<Rightarrow> (Pending, scanSessions)
              | Some d \<Rightarrow>
                  if status s \<noteq> ready then (Pending, scanSessions)
                  else (let d' = (if deliveredAt d = None then d\<lparr>deliveredAt := Some pollTime\<rparr> else d)
                        in (Ready d', scanSessions(sid \<mapsto> s\<lparr>data := Some d'\<rparr>))))))"

section \<open>Notions used in the statements\<close>

text \<open>
  The mod-10 checksum in the specification's words: counting from the rightmost digit
  (position 0), every second digit (the odd positions) is doubled, 9 is subtracted where
  the doubled value exceeds 9, and everything is summed.
\<close>

definition luhnTerm :: "nat \<Rightarrow> nat \<Rightarrow> nat" where
  "luhnTerm i d = (if odd i then (if 2 * d > 9 then 2 * d - 9 else 2 * d) else d)"

definition mod10Checksum :: "jstring \<Rightarrow> nat" where
  "mod10Checksum d = sum_list (map (\<lambda>i. luhnTerm i (digitVal (rev d ! i))) [0 ..< length d])"

text \<open>What the six replacements of the Normalizer do to one character.\<close>

definition digitLikeChar :: "int \<Rightarrow> int" where
  "digitLikeChar c =
     (if c \<in> set (js ''OQD'') then cu CHR ''0''
      else if c \<in> set (js ''IL|'') then cu CHR ''1''
      else if c = cu CHR ''S'' then cu CHR ''5''
      else if c = cu CHR ''B'' then cu CHR ''8''
      else if c = cu CHR ''Z'' then cu CHR ''2''
      else if c = cu CHR ''G'' then cu CHR ''6''
      else c)"

text \<open>A digit run: digits, with at most one space or dash between two of them.\<close>

fun isRun :: "jstring \<Rightarrow> bool" where
  "isRun [] = False"
| "isRun [c] = isDigit c"
| "isRun (c # d # cs) =
     (isDigit c \<and> (if d \<in> set (js '' -'') then isRun cs else isRun (d # cs)))"



text \<open>The repeated part of \<open>cardGroupRe\<close>, and what is left of the text after a run
  once the last round has taken the separator that may follow it.\<close>

definition groupBody :: re where
  "groupBody = Seq anyDigit (Opt (OneOf '' -''))"

definition stopRest :: "jstring \<Rightarrow> jstring" where
  "stopRest post = (if post \<noteq> [] \<and> hd post \<in> set (js '' -'') then tl post else post)"

section \<open>Characters\<close>

lemma isDigit_iff: "isDigit c \<longleftrightarrow> 48 \<le> c \<and> c \<le> 57"
  unfolding isDigit_def digitChars_def js_def cu_def by simp arith

lemma seps_iff: "c \<in> set (js '' -'') \<longleftrightarrow> c = 32 \<or> c = 45"
  by (simp add: js_def cu_def)

lemma normalizeDateDigits_map: "normalizeDateDigits v = map digitLikeChar v"
  by (simp add: normalizeDateDigits_def replaceChars_def digitLikeChar_def js_def cu_def)

lemma digitLikeChar_changes:
  "digitLikeChar c \<noteq> c \<Longrightarrow> caseless c \<and> caseless (digitLikeChar c)"
  by (auto simp add: digitLikeChar_def caseless_def js_def cu_def split: if_splits)

lemma digitLikeChar_idem: "digitLikeChar (digitLikeChar c) = digitLikeChar c"
  by (simp add: digitLikeChar_def js_def cu_def)

lemma digitLikeChar_fixed: "isDigit c \<or> c \<in> set (js '' -'') \<Longrightarrow> digitLikeChar c = c"
  by (auto simp add: isDigit_iff seps_iff digitLikeChar_def js_def cu_def)

lemma asciiUpper_fixed: "isDigit c \<or> c \<in> set (js '' -'') \<Longrightarrow> asciiUpper c = c"
  by (auto simp add: isDigit_iff seps_iff asciiUpper_def)

subsection \<open>\<open>toUpperCaseLatin1\<close> is upper-case-like\<close>

lemma upperLatin1_fixed: "d \<in> set (upperLatin1 c) \<Longrightarrow> upperLatin1 d = [d]"
  by (auto simp add: upperLatin1_def split: if_splits)

lemma upperLatin1_hd: "hd (upperLatin1 c) = c \<Longrightarrow> upperLatin1 c = [c]"
  by (auto simp add: upperLatin1_def split: if_splits)

lemma upperLatin1_nonempty: "upperLatin1 c \<noteq> []"
  by (simp add: upperLatin1_def)

lemma upperLatin1_caseless: "caseless c \<Longrightarrow> upperLatin1 c = [c]"
  by (auto simp add: upperLatin1_def caseless_def)

lemma upperLatin1_ascii: "c < 128 \<Longrightarrow> upperLatin1 c = [asciiUpper c]"
  by (auto simp add: upperLatin1_def asciiUpper_def)

lemma toUpperCaseLatin1_fixed:
  "\<forall>c \<in> set s. upperLatin1 c = [c] \<Longrightarrow> toUpperCaseLatin1 s = s"
  by (induction s) (simp_all add: toUpperCaseLatin1_def)

lemma toUpperCaseLatin1_units:
  "toUpperCaseLatin1 s = s \<Longrightarrow> \<forall>c \<in> set s. upperLatin1 c = [c]"
proof (induction s)
  case Nil
  then show ?case by simp
next
  case (Cons c s)
  from Cons.prems have e: "upperLatin1 c @ toUpperCaseLatin1 s = c # s"
    by (simp add: toUpperCaseLatin1_def)
  then have "hd (upperLatin1 c) = c"
    using upperLatin1_nonempty [of c] by (cases "upperLatin1 c") auto
  then have c: "upperLatin1 c = [c]"
    by (rule upperLatin1_hd)
  with e have "toUpperCaseLatin1 s = s" by simp
  with Cons.IH c show ?case by simp
qed

lemma upperCaseLike_Latin1: "upperCaseLike toUpperCaseLatin1"
proof -
  have idem: "toUpperCaseLatin1 (toUpperCaseLatin1 s) = toUpperCaseLatin1 s" for s
  proof (rule toUpperCaseLatin1_fixed)
    show "\<forall>c \<in> set (toUpperCaseLatin1 s). upperLatin1 c = [c]"
      by (auto simp add: toUpperCaseLatin1_def dest: upperLatin1_fixed)
  qed
  have exch: "toUpperCaseLatin1 (map f s) = map f s"
    if "toUpperCaseLatin1 s = s" and f: "\<forall>c. f c \<noteq> c \<longrightarrow> caseless c \<and> caseless (f c)" for s f
  proof (rule toUpperCaseLatin1_fixed)
    from that(1) have u: "\<forall>c \<in> set s. upperLatin1 c = [c]"
      by (rule toUpperCaseLatin1_units)
    show "\<forall>c \<in> set (map f s). upperLatin1 c = [c]"
    proof
      fix d assume "d \<in> set (map f s)"
      then obtain c where c: "c \<in> set s" "d = f c" by auto
      show "upperLatin1 d = [d]"
      proof (cases "f c = c")
        case True
        with c u show ?thesis by simp
      next
        case False
        with f c show ?thesis by (simp add: upperLatin1_caseless)
      qed
    qed
  qed
  have app: "toUpperCaseLatin1 (a @ b) = toUpperCaseLatin1 a @ toUpperCaseLatin1 b" for a b
    by (simp add: toUpperCaseLatin1_def)
  have ascii: "toUpperCaseLatin1 s = map asciiUpper s" if "\<forall>c \<in> set s. c < 128" for s
    using that by (induction s) (simp_all add: toUpperCaseLatin1_def upperLatin1_ascii)
  show ?thesis
    unfolding upperCaseLike_def using idem exch app ascii by blast
qed

lemma upperCaseLike_idem: "upperCaseLike up \<Longrightarrow> up (up s) = up s"
  by (simp add: upperCaseLike_def)

lemma upperCaseLike_exchange:
  "upperCaseLike up \<Longrightarrow> up s = s \<Longrightarrow> (\<And>c. f c \<noteq> c \<Longrightarrow> caseless c \<and> caseless (f c)) \<Longrightarrow>
   up (map f s) = map f s"
  unfolding upperCaseLike_def by blast

lemma upperCaseLike_append:
  "upperCaseLike up \<Longrightarrow> a = [] \<or> b = [] \<or> last a < 128 \<or> hd b < 128 \<Longrightarrow>
   up (a @ b) = up a @ up b"
  unfolding upperCaseLike_def by blast

lemma upperCaseLike_ascii:
  "upperCaseLike up \<Longrightarrow> \<forall>c \<in> set s. c < 128 \<Longrightarrow> up s = map asciiUpper s"
  unfolding upperCaseLike_def by blast

section \<open>The Normalizer\<close>

text \<open>
  C10. The Normalizer is idempotent, for every string, whatever the runtime's
  \<open>toUpperCase\<close> does to the characters outside ASCII (as long as it is upper-case-like):
  upper-casing an upper-cased text changes nothing, the six replacements exchange only
  capital letters and \<open>|\<close> for digits, which leaves the text upper-cased, and digits are
  fixed points of the replacements.
\<close>

theorem normalizeDigitLikeText_idempotent:
  assumes "upperCaseLike up"
  shows "normalizeDigitLikeText up (normalizeDigitLikeText up x) = normalizeDigitLikeText up x"
proof -
  have "up (up x) = up x"
    using assms by (rule upperCaseLike_idem)
  then have "up (map digitLikeChar (up x)) = map digitLikeChar (up x)"
    using assms digitLikeChar_changes by (intro upperCaseLike_exchange) auto
  then show ?thesis
    by (simp add: normalizeDigitLikeText_def normalizeDateDigits_map digitLikeChar_idem)
qed

theorem normalizeDigitLikeText_idempotent_witness:
  "normalizeDigitLikeText toUpperCaseLatin1 (js ''Sold 4o1z'' @ [0xDF, 0xE9]) = js ''5010 4012'' @ js ''55'' @ [0xC9]
   \<and> normalizeDigitLikeText toUpperCaseLatin1 (js ''5010 4012'' @ js ''55'' @ [0xC9])
       = js ''5010 4012'' @ js ''55'' @ [0xC9]"
proof -
  have e: "normalizeDigitLikeText toUpperCaseLatin1 (js ''Sold 4o1z'' @ [0xDF, 0xE9])
      = js ''5010 4012'' @ js ''55'' @ [0xC9]"
    by code_simp
  from normalizeDigitLikeText_idempotent [OF upperCaseLike_Latin1, of "js ''Sold 4o1z'' @ [0xDF, 0xE9]"]
  show ?thesis
    unfolding e by simp
qed

section \<open>The Luhn checksum\<close>

lemma NumberChar_digit: "isDigit c \<Longrightarrow> NumberChar c = Some (digitVal c)"
  by (simp add: NumberChar_def)

lemma upt_shift: "map f [0 ..< Suc n] = f 0 # map (\<lambda>i. f (Suc i)) [0 ..< n]"
  by (simp add: upt_conv_Cons map_Suc_upt [symmetric] del: upt_Suc)

lemma luhnTerm_Suc_Suc: "luhnTerm (Suc (Suc i)) = luhnTerm i"
  by (simp add: luhnTerm_def fun_eq_iff)

lemma luhnLoop_digits:
  "\<forall>c \<in> set cs. isDigit c \<Longrightarrow>
   luhnLoop cs (Some a) b =
     Some (a + sum_list (map (\<lambda>i. luhnTerm (i + (if b then 1 else 0)) (digitVal (cs ! i)))
                          [0 ..< length cs]))"
proof (induction cs arbitrary: a b)
  case Nil
  then show ?case by simp
next
  case (Cons c cs)
  have dc: "NumberChar c = Some (digitVal c)"
    using Cons.prems by (simp add: NumberChar_digit)
  have rest: "\<forall>c \<in> set cs. isDigit c"
    using Cons.prems by simp
  have step: "(if b then (if 2 * digitVal c > 9 then 2 * digitVal c - 9 else 2 * digitVal c)
               else digitVal c) = luhnTerm (if b then 1 else 0) (digitVal c)"
    by (simp add: luhnTerm_def)
  show ?case
    unfolding luhnLoop.simps dc
    apply (simp only: option.case prod.case step Cons.IH [OF rest] length_Cons)
    apply (subst upt_shift)
    apply (cases b)
     apply (simp_all add: luhnTerm_Suc_Suc)
    done
qed

text \<open>
  C2. On a string of digits (of any length, so of length 13 to 16), \<open>luhnCheck\<close> is true
  exactly when the mod-10 checksum, as the specification words it, is zero modulo 10.
\<close>

theorem luhnCheck_mod10:
  assumes "\<forall>c \<in> set d. isDigit c"
  shows "luhnCheck d = (mod10Checksum d mod 10 = 0)"
proof -
  have "\<forall>c \<in> set (rev d). isDigit c"
    using assms by simp
  from luhnLoop_digits [OF this, of 0 False] show ?thesis
    by (simp add: luhnCheck_def mod10Checksum_def)
qed

theorem luhnCheck_mod10_witness:
  "luhnCheck (js ''4111111111111111'') \<and> mod10Checksum (js ''4111111111111111'') = 30
   \<and> \<not> luhnCheck (js ''4111111111111112'') \<and> mod10Checksum (js ''4111111111111112'') = 31"
proof -
  have d1: "\<forall>c \<in> set (js ''4111111111111111''). isDigit c"
    by (simp add: isDigit_iff js_def cu_def)
  have d2: "\<forall>c \<in> set (js ''4111111111111112''). isDigit c"
    by (simp add: isDigit_iff js_def cu_def)
  have s1: "mod10Checksum (js ''4111111111111111'') = 30"
    by code_simp
  have s2: "mod10Checksum (js ''4111111111111112'') = 31"
    by code_simp
  from luhnCheck_mod10 [OF d1] luhnCheck_mod10 [OF d2] s1 s2 show ?thesis
    by simp
qed

section \<open>Network detection\<close>

text \<open>
  C1. Four of the five test vectors are classified as the specification says. The
  fifth, \<open>6011000000000004\<close>, is classified as RUPAY: it starts with \<open>60\<close>, and the RUPAY
  rule is tried before the DISCOVER rule.
\<close>

theorem detectCardType_vectors:
  "detectCardType (js ''4111111111111111'') = VISA
   \<and> detectCardType (js ''5500000000000004'') = MASTERCARD
   \<and> detectCardType (js ''6011000000000004'') = RUPAY
   \<and> detectCardType (js ''340000000000009'') = AMEX
   \<and> detectCardType (js ''6076000000000000'') = RUPAY"
  by code_simp

theorem detectCardType_vectors_witness:
  "detectCardType (js ''6011000000000004'') \<noteq> DISCOVER"
  using detectCardType_vectors by simp

text \<open>
  The DISCOVER rule can never apply: whatever it matches starts with \<open>60\<close> or \<open>65\<close>,
  which the RUPAY rule, tried before it, matches too. So no card number is classified
  as DISCOVER.
\<close>

lemma matchAt_Bol: "p \<noteq> [] \<Longrightarrow> matchAt (Seq Bol r) p s = None"
  by (simp add: matchAt_def)

lemma searchFrom_Bol: "p \<noteq> [] \<Longrightarrow> searchFrom (Seq Bol r) p s = None"
  by (induction s arbitrary: p) (simp_all add: matchAt_Bol)

lemma test_Bol: "test (Seq Bol r) s = (matchAt (Seq Bol r) [] s \<noteq> None)"
  by (cases s) (auto simp add: test_def searchFrom_Bol split: option.splits)

lemma discover_prefix:
  "test discoverRe s \<Longrightarrow> take 2 s = js ''60'' \<or> take 2 s = js ''65''"
  unfolding discoverRe_def seqs.simps alts.simps test_Bol
  by (cases s; cases "tl s")
    (auto simp add: matchAt_def msLit_def js_def cu_def split: if_splits list.splits)

lemma rupay_prefix:
  "take 2 s = js ''60'' \<or> take 2 s = js ''65'' \<Longrightarrow> test rupayRe s"
  unfolding rupayRe_def seqs.simps alts.simps test_Bol
  by (auto simp add: matchAt_def msLit_def msGrp_def numeral_2_eq_2 js_def cu_def)

lemma detectCardType_never_DISCOVER: "detectCardType n \<noteq> DISCOVER"
  using rupay_prefix [OF discover_prefix, of "digitsOnly n"]
  by (auto simp add: detectCardType_def Let_def)

section \<open>Masking\<close>

lemma count_list_map_Ch: "count_list (map Ch s) Bullet = 0"
  by (induction s) simp_all

text \<open>
  C7, as the code has it. The masked number of a card number of 13 to 16 digits is the
  fixed template of three groups of four mask glyphs, each followed by a space, and then
  the last four digits of the number. It holds 12 mask glyphs whatever the length, which
  is one for each digit before the last four only when the number has 16 digits.
\<close>

theorem maskCardNumber_template:
  assumes "13 \<le> length n" and "length n \<le> 16"
  shows "maskCardNumber n = maskPrefix @ map Ch (lastFour n)
         \<and> length (lastFour n) = 4
         \<and> count_list (maskCardNumber n) Bullet = 12
         \<and> ((count_list (maskCardNumber n) Bullet = length n - 4) = (length n = 16))"
proof -
  have m: "maskCardNumber n = maskPrefix @ map Ch (lastFour n)"
    using assms by (auto simp add: maskCardNumber_def)
  have l: "length (lastFour n) = 4"
    using assms by (simp add: lastFour_def)
  have c: "count_list (maskCardNumber n) Bullet = 12"
    by (simp add: m count_list_map_Ch maskPrefix_def)
  from m l c assms show ?thesis
    by auto
qed

theorem maskCardNumber_template_witness:
  "maskCardNumber (js ''4111111111111111'') = maskPrefix @ map Ch (js ''1111'')
   \<and> count_list (maskCardNumber (js ''4111111111111111'')) Bullet = 12"
proof -
  have lf: "lastFour (js ''4111111111111111'') = js ''1111''"
    by (simp add: lastFour_def js_def)
  have lo: "13 \<le> length (js ''4111111111111111'')"
    by (simp add: js_def)
  have hi: "length (js ''4111111111111111'') \<le> 16"
    by (simp add: js_def)
  from maskCardNumber_template [OF lo hi, unfolded lf] show ?thesis
    by blast
qed

text \<open>
  The claim as it was worded fails on the 15-digit number \<open>340000000000009\<close>, which
  \<open>extractCardNumber\<close> returns as it is: 12 mask glyphs stand for its 11 leading digits.
\<close>

theorem maskCardNumber_counterexample:
  "extractCardNumber toUpperCaseLatin1 (js ''340000000000009'') = js ''340000000000009''
   \<and> length (js ''340000000000009'') = 15
   \<and> count_list (maskCardNumber (js ''340000000000009'')) Bullet = 12
   \<and> count_list (maskCardNumber (js ''340000000000009'')) Bullet \<noteq> length (js ''340000000000009'') - 4"
  by code_simp

section \<open>Card number extraction: the result\<close>

lemma digitsOnly_digits: "c \<in> set (digitsOnly s) \<Longrightarrow> isDigit c"
  by (simp add: digitsOnly_def)

lemma firstValidGroup_Some:
  "firstValidGroup gs = Some d \<Longrightarrow>
   (\<exists>g \<in> set gs. d = digitsOnly g) \<and> 13 \<le> length d \<and> length d \<le> 16 \<and> luhnCheck d"
  by (induction gs) (auto simp add: Let_def MAX_CARD_DIGITS_def split: if_splits)

lemma windows_bounds:
  "(start, len) \<in> set (windows n) \<Longrightarrow> 13 \<le> len \<and> len \<le> 16 \<and> start + len \<le> n"
  by (auto simp add: windows_def MAX_CARD_DIGITS_def)

lemma slidingWindow_Some:
  assumes "slidingWindow a = Some c"
  shows "13 \<le> length c \<and> length c \<le> 16 \<and> set c \<subseteq> set a \<and> luhnCheck c"
proof -
  from assms obtain start len where w: "(start, len) \<in> set (windows (length a))"
    and c: "c = slice a start (start + len)" and l: "luhnCheck c"
    by (auto simp add: slidingWindow_def find_Some_iff in_set_conv_nth split: prod.splits)
      (metis nth_mem)
  from windows_bounds [OF w] have b: "13 \<le> len" "len \<le> 16" "start + len \<le> length a"
    by simp_all
  have "length c = len"
    using b by (simp add: c slice_def)
  moreover have "set c \<subseteq> set a"
    unfolding c slice_def by (meson set_take_subset set_drop_subset subset_trans)
  ultimately show ?thesis
    using b l by simp
qed

lemma extractCardNumber_result:
  "extractCardNumber up rawText = [] \<or>
   ((\<forall>c \<in> set (extractCardNumber up rawText). isDigit c)
    \<and> 13 \<le> length (extractCardNumber up rawText) \<and> length (extractCardNumber up rawText) \<le> 16
    \<and> luhnCheck (extractCardNumber up rawText))"
proof (cases "firstValidGroup (map matched (allMatches cardGroupRe (normalizeDigitLikeText up rawText)))")
  case (Some d)
  then have "extractCardNumber up rawText = d"
    by (simp add: extractCardNumber_def)
  with firstValidGroup_Some [OF Some] show ?thesis
    by (auto dest: digitsOnly_digits)
next
  case None
  show ?thesis
  proof (cases "slidingWindow (digitsOnly (normalizeDigitLikeText up rawText))")
    case (Some c)
    with None have "extractCardNumber up rawText = c"
      by (simp add: extractCardNumber_def)
    with slidingWindow_Some [OF Some] show ?thesis
      by (auto dest: digitsOnly_digits)
  next
    case n: None
    with None show ?thesis
      by (simp add: extractCardNumber_def)
  qed
qed

text \<open>
  C4. \<open>extractCardNumber\<close> returns the empty string or a string of digits of length
  at most 16 (of 13 to 16 digits, and Luhn-valid, by the lemma above). So the scan
  handler never answers 422 "Card number must be 16 digits or less.": that branch is
  unreachable.
\<close>

theorem extractCardNumber_at_most_16:
  "(extractCardNumber up rawText = [] \<or>
    ((\<forall>c \<in> set (extractCardNumber up rawText). isDigit c) \<and> length (extractCardNumber up rawText) \<le> 16))
   \<and> fst (scanHandler up scanSessions sessionId hasImage ocr now scanTime)
       \<noteq> Failure 422 ''Card number must be 16 digits or less.''"
proof -
  have len: "\<not> length (extractCardNumber up t) > MAX_CARD_DIGITS" for t
    using extractCardNumber_result [of up t] by (auto simp add: MAX_CARD_DIGITS_def)
  have "fst (scanHandler up scanSessions sessionId hasImage ocr now scanTime)
       \<noteq> Failure 422 ''Card number must be 16 digits or less.''"
    by (simp add: scanHandler_def Let_def len split: option.splits sum.splits)
  with extractCardNumber_result [of up rawText] show ?thesis
    by blast
qed

theorem extractCardNumber_at_most_16_witness:
  "extractCardNumber toUpperCaseLatin1 (js ''No. 4111 1111 1111 1111 x'') = js ''4111111111111111''
   \<and> length (extractCardNumber toUpperCaseLatin1 (js ''No. 4111 1111 1111 1111 x'')) \<le> 16"
proof -
  have e: "extractCardNumber toUpperCaseLatin1 (js ''No. 4111 1111 1111 1111 x'') = js ''4111111111111111''"
    by code_simp
  have n: "js ''4111111111111111'' \<noteq> []"
    by (simp add: js_def)
  from extractCardNumber_at_most_16 [of toUpperCaseLatin1 "js ''No. 4111 1111 1111 1111 x''"] e n
  show ?thesis
    by auto
qed

section \<open>Expiry extraction: the result\<close>

text \<open>
  C5. A year of three digits is returned as it is: \<open>toExpiry\<close> cuts a year of four
  digits to its last two and leaves every other length alone, and the date pattern
  takes two to four year digits. On the text \<open>12/123\<close> the result is \<open>12/123\<close>, which is
  not of the form MM/YY.
\<close>

theorem extractExpiry_three_digit_year:
  "extractExpiry toUpperCaseLatin1 (js ''12/123'') = js ''12/123''"
  by code_simp

theorem extractExpiry_three_digit_year_witness:
  "length (extractExpiry toUpperCaseLatin1 (js ''12/123'')) = 6"
  using extractExpiry_three_digit_year by (simp add: js_def)















section \<open>Sessions: expired and unknown ids\<close>

text \<open>
  C8, as the code has it. Take an id that is not empty and the time \<open>now\<close> that a
  handler reads at its expiry check. An id with no session in the map gets 404 from both
  endpoints. An id whose session is in the map with \<open>expiresAt\<close> at or before \<open>now\<close> gets
  410 from the scan endpoint, which deletes the session; from the poll endpoint it gets
  404 when the sweep that the endpoint runs first (at its own reading \<open>sweepTime\<close> of
  the clock) has removed the session, and 410 otherwise, and the session is gone from
  the map afterwards. So 410 tells an expired session that is still stored from an id
  that never existed. The statement is about the session as it is at that check.
\<close>

theorem expired_session_distinguishable:
  assumes "sid \<noteq> []"
  shows "(scanSessions sid = None \<longrightarrow>
            scanHandler up scanSessions (Some sid) hasImage ocr now scanTime
              = (Failure 404 ''Session not found/expired'', scanSessions))
       \<and> (\<forall>s. scanSessions sid = Some s \<and> expiresAt s \<le> now \<longrightarrow>
            scanHandler up scanSessions (Some sid) hasImage ocr now scanTime
              = (Failure 410 ''Session expired'', scanSessions(sid := None)))
       \<and> (scanSessions sid = None \<longrightarrow>
            fst (getDataHandler scanSessions (Some sid) sweepTime now pollTime)
              = Failure 404 ''Session not found/expired'')
       \<and> (\<forall>s. scanSessions sid = Some s \<and> expiresAt s \<le> now \<longrightarrow>
            fst (getDataHandler scanSessions (Some sid) sweepTime now pollTime)
              = (if expiresAt s \<le> sweepTime then Failure 404 ''Session not found/expired''
                 else Failure 410 ''Session expired'')
            \<and> snd (getDataHandler scanSessions (Some sid) sweepTime now pollTime) sid = None)"
  using assms
  by (simp add: scanHandler_def getDataHandler_def cleanupExpiredSessions_def Let_def)

theorem expired_session_distinguishable_witness:
  "fst (scanHandler toUpperCaseLatin1 [''a'' \<mapsto> \<lparr>createdAt = 0, expiresAt = 300000, status = pending, data = None\<rparr>]
          (Some ''a'') True (Inr []) 300001 300001) = Failure 410 ''Session expired''
   \<and> fst (getDataHandler [''a'' \<mapsto> \<lparr>createdAt = 0, expiresAt = 300000, status = pending, data = None\<rparr>]
          (Some ''a'') 300001 300001 300001) = Failure 404 ''Session not found/expired''"
proof -
  let ?m = "[''a'' \<mapsto> \<lparr>createdAt = 0, expiresAt = 300000, status = pending, data = None\<rparr>]"
  have ne: "''a'' \<noteq> []" by simp
  from expired_session_distinguishable [OF ne, where scanSessions = ?m and now = 300001
      and sweepTime = 300001 and up = toUpperCaseLatin1 and hasImage = True and ocr = "Inr []" and scanTime = 300001
      and pollTime = 300001]
  show ?thesis
    by simp
qed

text \<open>
  The claim as it was worded fails: with the session of id \<open>a\<close> expired at 300000 and
  still in the map, at time 300001 the scan endpoint answers 410 for \<open>a\<close> and 404 for
  the unknown id \<open>b\<close>; so does the poll endpoint when its sweep read the clock before
  the expiry.
\<close>

theorem expired_session_counterexample:
  "fst (scanHandler toUpperCaseLatin1 [''a'' \<mapsto> \<lparr>createdAt = 0, expiresAt = 300000, status = pending, data = None\<rparr>]
          (Some ''a'') True (Inr []) 300001 300001) = Failure 410 ''Session expired''
   \<and> fst (scanHandler toUpperCaseLatin1 [''a'' \<mapsto> \<lparr>createdAt = 0, expiresAt = 300000, status = pending, data = None\<rparr>]
          (Some ''b'') True (Inr []) 300001 300001) = Failure 404 ''Session not found/expired''
   \<and> fst (getDataHandler [''a'' \<mapsto> \<lparr>createdAt = 0, expiresAt = 300000, status = pending, data = None\<rparr>]
          (Some ''a'') 299999 300001 300001) = Failure 410 ''Session expired''
   \<and> fst (getDataHandler [''a'' \<mapsto> \<lparr>createdAt = 0, expiresAt = 300000, status = pending, data = None\<rparr>]
          (Some ''b'') 299999 300001 300001) = Failure 404 ''Session not found/expired''"
  by (simp add: scanHandler_def getDataHandler_def cleanupExpiredSessions_def Let_def)

section \<open>Cardholder name extraction: the result\<close>














section \<open>Card number extraction: a single run\<close>

lemma sep_not_digit: "d \<in> set (js '' -'') \<Longrightarrow> \<not> isDigit d"
  by (auto simp add: isDigit_iff seps_iff)

lemma body_nondigit:
  "s = [] \<or> \<not> isDigit (hd s) \<Longrightarrow> ms groupBody (p, s, g) = []"
  by (cases s) (auto simp add: groupBody_def anyDigit_def msClass_def isDigit_def)

lemma body_digit_sep:
  "isDigit c \<Longrightarrow> d \<in> set (js '' -'') \<Longrightarrow>
   ms groupBody (p, c # d # s, g) = [(d # c # p, s, g), (c # p, d # s, g)]"
  by (auto simp add: groupBody_def anyDigit_def msClass_def isDigit_def)

lemma body_digit_other:
  "isDigit c \<Longrightarrow> s = [] \<or> hd s \<notin> set (js '' -'') \<Longrightarrow>
   ms groupBody (p, c # s, g) = [(c # p, s, g)]"
  by (cases s) (auto simp add: groupBody_def anyDigit_def msClass_def isDigit_def)

lemma reps_stop:
  "s = [] \<or> \<not> isDigit (hd s) \<Longrightarrow>
   reps (ms groupBody) lo hi (p, s, g) = (if lo = 0 then [(p, s, g)] else [])"
  by (cases hi) (simp_all add: body_nondigit)

lemma stopRest_nondigit:
  "\<forall>c \<in> set post. \<not> isDigit c \<Longrightarrow> stopRest post = [] \<or> \<not> isDigit (hd (stopRest post))"
  by (cases post) (auto simp add: stopRest_def dest: list.set_sel)

lemma isRun_nonempty: "isRun run \<Longrightarrow> run \<noteq> [] \<and> isDigit (hd run)"
  by (induction run rule: isRun.induct) auto

lemma reps_run:
  assumes "isRun run" and "\<forall>c \<in> set post. \<not> isDigit c"
    and "lo \<le> length (digitsOnly run)" and "length (digitsOnly run) \<le> hi"
  shows "\<exists>p'. reps (ms groupBody) lo hi (p, run @ post, g) \<noteq> []
           \<and> hd (reps (ms groupBody) lo hi (p, run @ post, g)) = (p', stopRest post, g)"
  using assms
proof (induction run arbitrary: lo hi p rule: isRun.induct)
  case 1
  then show ?case by simp
next
  case (2 c)
  then have c: "isDigit c" by simp
  from 2 c obtain hi' where hi: "hi = Suc hi'" and lo: "lo \<le> Suc 0"
    by (cases hi) (auto simp add: digitsOnly_def)
  show ?case
  proof (cases "post \<noteq> [] \<and> hd post \<in> set (js '' -'')")
    case True
    then obtain d post' where post: "post = d # post'" and d: "d \<in> set (js '' -'')"
      by (cases post) auto
    have nd: "post' = [] \<or> \<not> isDigit (hd post')"
      using 2(2) post by (cases post') auto
    have "ms groupBody (p, [c] @ post, g) = [(d # c # p, post', g), (c # p, d # post', g)]"
      using body_digit_sep [OF c d] post by simp
    then show ?thesis
      using True post lo by (simp add: hi reps_stop [OF nd] stopRest_def)
  next
    case False
    then have o: "post = [] \<or> hd post \<notin> set (js '' -'')" by auto
    have nd: "post = [] \<or> \<not> isDigit (hd post)"
      using 2(2) by (cases post) auto
    have "ms groupBody (p, [c] @ post, g) = [(c # p, post, g)]"
      using body_digit_other [OF c o] by simp
    then show ?thesis
      using False lo by (auto simp add: hi reps_stop [OF nd] stopRest_def)
  qed
next
  case (3 c d cs)
  then have c: "isDigit c" by simp
  show ?case
  proof (cases "d \<in> set (js '' -'')")
    case True
    with 3(3) have run: "isRun cs" by simp
    have dig: "digitsOnly (c # d # cs) = c # digitsOnly cs"
      using c sep_not_digit [OF True] by (simp add: digitsOnly_def)
    from 3(5,6) obtain hi' where hi: "hi = Suc hi'"
      and b: "lo - 1 \<le> length (digitsOnly cs)" "length (digitsOnly cs) \<le> hi'"
      by (cases hi) (auto simp add: dig)
    from 3(1) [OF True run 3(4) b, of "d # c # p"] obtain p' where
      ih: "reps (ms groupBody) (lo - 1) hi' (d # c # p, cs @ post, g) \<noteq> []"
        "hd (reps (ms groupBody) (lo - 1) hi' (d # c # p, cs @ post, g)) = (p', stopRest post, g)"
      by blast
    have "ms groupBody (p, (c # d # cs) @ post, g)
        = [(d # c # p, cs @ post, g), (c # p, d # cs @ post, g)]"
      using body_digit_sep [OF c True] by simp
    then show ?thesis
      using ih by (simp add: hi)
  next
    case False
    with 3(3) have run: "isRun (d # cs)" by simp
    have dig: "digitsOnly (c # d # cs) = c # digitsOnly (d # cs)"
      using c by (simp add: digitsOnly_def)
    from 3(5,6) obtain hi' where hi: "hi = Suc hi'"
      and b: "lo - 1 \<le> length (digitsOnly (d # cs))" "length (digitsOnly (d # cs)) \<le> hi'"
      by (cases hi) (auto simp add: dig)
    from 3(2) [OF False run 3(4) b, of "c # p"] obtain p' where
      ih: "reps (ms groupBody) (lo - 1) hi' (c # p, (d # cs) @ post, g) \<noteq> []"
        "hd (reps (ms groupBody) (lo - 1) hi' (c # p, (d # cs) @ post, g)) = (p', stopRest post, g)"
      by blast
    have "ms groupBody (p, (c # d # cs) @ post, g) = [(c # p, (d # cs) @ post, g)]"
      using body_digit_other [OF c, of "(d # cs) @ post"] False by simp
    then show ?thesis
      using ih by (simp add: hi)
  qed
qed


lemma cardGroupRe_body: "ms cardGroupRe = reps (ms groupBody) 13 16"
  by (simp add: cardGroupRe_def groupBody_def)

lemma matchAt_nondigit:
  assumes "\<not> isDigit c"
  shows "matchAt cardGroupRe p (c # cs) = None"
proof -
  have "reps (ms groupBody) 13 16 (p, c # cs, []) = []"
    using assms reps_stop [of "c # cs" 13 16 p "[]"] by simp
  then show ?thesis
    by (simp add: matchAt_def cardGroupRe_body)
qed

lemma allFrom_skip:
  "\<forall>c \<in> set xs. \<not> isDigit c \<Longrightarrow>
   allFrom cardGroupRe p (xs @ r) 0 = allFrom cardGroupRe (rev xs @ p) r 0"
proof (induction xs arbitrary: p)
  case Nil
  then show ?case by simp
next
  case (Cons x xs)
  then have "matchAt cardGroupRe p (x # xs @ r) = None"
    by (simp add: matchAt_nondigit)
  with Cons show ?case by simp
qed

lemma digitsOnly_append: "digitsOnly (a @ b) = digitsOnly a @ digitsOnly b"
  by (simp add: digitsOnly_def)

lemma matchAt_run:
  assumes "isRun run" and "\<forall>c \<in> set post. \<not> isDigit c"
    and "13 \<le> length (digitsOnly run)" and "length (digitsOnly run) \<le> 16"
  shows "\<exists>m. matchAt cardGroupRe p (run @ post) = Some m \<and> digitsOnly (matched m) = digitsOnly run"
proof -
  from reps_run [OF assms, of p "[]"] obtain p' where
    ne: "reps (ms groupBody) 13 16 (p, run @ post, []) \<noteq> []"
    and h: "hd (reps (ms groupBody) 13 16 (p, run @ post, [])) = (p', stopRest post, [])"
    by blast
  from ne h obtain rest where r: "ms cardGroupRe (p, run @ post, []) = (p', stopRest post, []) # rest"
    by (cases "reps (ms groupBody) 13 16 (p, run @ post, [])") (auto simp add: cardGroupRe_body)
  let ?m = "\<lparr>index = length p,
            matched = take (length (run @ post) - length (stopRest post)) (run @ post),
            groups = []\<rparr>"
  have m: "matchAt cardGroupRe p (run @ post) = Some ?m"
    by (simp add: matchAt_def r)
  have "digitsOnly (take (length (run @ post) - length (stopRest post)) (run @ post)) = digitsOnly run"
  proof (cases "post \<noteq> [] \<and> hd post \<in> set (js '' -'')")
    case True
    then obtain d post' where post: "post = d # post'" and d: "d \<in> set (js '' -'')"
      by (cases post) auto
    have "stopRest post = post'"
      using True post by (simp add: stopRest_def)
    then have "take (length (run @ post) - length (stopRest post)) (run @ post) = run @ [d]"
      by (simp add: post)
    then show ?thesis
      using sep_not_digit [OF d] by (simp add: digitsOnly_def)
  next
    case False
    then have "stopRest post = post"
      by (auto simp add: stopRest_def)
    then show ?thesis by simp
  qed
  with m show ?thesis by simp
qed

lemma allMatches_first:
  assumes "isRun run" and "\<forall>c \<in> set pre. \<not> isDigit c" and "\<forall>c \<in> set post. \<not> isDigit c"
    and "13 \<le> length (digitsOnly run)" and "length (digitsOnly run) \<le> 16"
  shows "\<exists>m ms'. allMatches cardGroupRe (pre @ run @ post) = m # ms'
           \<and> digitsOnly (matched m) = digitsOnly run"
proof -
  from isRun_nonempty [OF assms(1)] obtain c cs where run: "run = c # cs"
    by (cases run) auto
  from matchAt_run [OF assms(1,3,4,5), of "rev pre"] obtain m where
    m: "matchAt cardGroupRe (rev pre) (run @ post) = Some m" "digitsOnly (matched m) = digitsOnly run"
    by blast
  have "allMatches cardGroupRe (pre @ run @ post) = allFrom cardGroupRe (rev pre) (run @ post) 0"
    using allFrom_skip [OF assms(2), of "[]" "run @ post"] by (simp add: allMatches_def)
  also have "\<dots> = m # allFrom cardGroupRe (c # rev pre) (cs @ post) (length (matched m) - 1)"
    using m(1) by (simp add: run)
  finally show ?thesis using m(2) by blast
qed

lemma isRun_chars: "isRun run \<Longrightarrow> \<forall>c \<in> set run. isDigit c \<or> c \<in> set (js '' -'')"
  by (induction run rule: isRun.induct) (auto split: if_splits)

lemma isRun_last: "isRun run \<Longrightarrow> isDigit (last run)"
  by (induction run rule: isRun.induct) (auto split: if_splits dest: isRun_nonempty)

lemma isRun_ascii: "isRun run \<Longrightarrow> \<forall>c \<in> set run. c < 128"
  using isRun_chars [of run] by (auto simp add: isDigit_iff seps_iff)

lemma up_run:
  assumes "upperCaseLike up" and "isRun run"
  shows "up run = run"
proof -
  have "up run = map asciiUpper run"
    using assms by (simp add: upperCaseLike_ascii isRun_ascii)
  also have "\<dots> = run"
    using isRun_chars [OF assms(2)] by (simp add: map_idI asciiUpper_fixed)
  finally show ?thesis .
qed

lemma normalize_around_run:
  assumes "upperCaseLike up" and "isRun run"
  shows "normalizeDigitLikeText up (pre @ run @ post)
       = normalizeDigitLikeText up pre @ run @ normalizeDigitLikeText up post"
proof -
  from isRun_nonempty [OF assms(2)] have ne: "run \<noteq> []" and h: "hd run < 128"
    by (simp_all add: isDigit_iff)
  from isRun_last [OF assms(2)] have l: "last run < 128"
    by (simp add: isDigit_iff)
  have "up (pre @ run @ post) = up pre @ up (run @ post)"
    using assms(1) ne h by (intro upperCaseLike_append) simp_all
  also have "up (run @ post) = up run @ up post"
    using assms(1) l by (intro upperCaseLike_append) simp_all
  finally have "up (pre @ run @ post) = up pre @ run @ up post"
    by (simp add: up_run [OF assms])
  moreover have "map digitLikeChar run = run"
    using isRun_chars [OF assms(2)] by (simp add: map_idI digitLikeChar_fixed)
  ultimately show ?thesis
    by (simp add: normalizeDigitLikeText_def normalizeDateDigits_map)
qed

text \<open>
  C3, as the code has it. The text is a digit run (digits, with at most one space or
  dash between two of them) of 13 to 16 digits that passes the Luhn check, between two
  stretches of noise that the Normalizer turns into text without any digit: noise with
  no digit, none of \<open>O Q D I L | S B Z G\<close> in either case, and no other character whose
  upper-case form holds one of these letters (as U+00DF, whose upper-case form is \<open>SS\<close>).
  Then \<open>extractCardNumber\<close> returns the digits of the run, whatever the runtime's
  \<open>toUpperCase\<close> does outside ASCII.
\<close>

theorem extractCardNumber_single_run:
  assumes "upperCaseLike up" and "isRun run"
    and "\<forall>c \<in> set (normalizeDigitLikeText up pre). \<not> isDigit c"
    and "\<forall>c \<in> set (normalizeDigitLikeText up post). \<not> isDigit c"
    and "13 \<le> length (digitsOnly run)" and "length (digitsOnly run) \<le> 16"
    and "luhnCheck (digitsOnly run)"
  shows "extractCardNumber up (pre @ run @ post) = digitsOnly run"
proof -
  note n = normalize_around_run [OF assms(1,2), of pre post]
  from allMatches_first [OF assms(2,3,4,5,6)]
  obtain m ms' where a: "allMatches cardGroupRe (normalizeDigitLikeText up (pre @ run @ post)) = m # ms'"
    and d: "digitsOnly (matched m) = digitsOnly run"
    unfolding n by blast
  have "firstValidGroup (map matched (m # ms')) = Some (digitsOnly run)"
    using assms(5,6,7) by (simp add: d Let_def MAX_CARD_DIGITS_def)
  then show ?thesis
    by (simp add: extractCardNumber_def a)
qed

theorem extractCardNumber_single_run_witness:
  "extractCardNumber toUpperCaseLatin1
     ((js ''Acct'' @ [0xE9, 0x3A, 0xA0]) @ js ''4111-1111 1111 1111'' @ js '' <Anna>'')
   = js ''4111111111111111''"
proof -
  have r: "isRun (js ''4111-1111 1111 1111'')"
    by code_simp
  have d: "digitsOnly (js ''4111-1111 1111 1111'') = js ''4111111111111111''"
    by code_simp
  have "list_all (\<lambda>c. \<not> isDigit c) (normalizeDigitLikeText toUpperCaseLatin1 (js ''Acct'' @ [0xE9, 0x3A, 0xA0]))"
    by code_simp
  then have pre: "\<forall>c \<in> set (normalizeDigitLikeText toUpperCaseLatin1 (js ''Acct'' @ [0xE9, 0x3A, 0xA0])). \<not> isDigit c"
    by (simp only: list_all_iff)
  have "list_all (\<lambda>c. \<not> isDigit c) (normalizeDigitLikeText toUpperCaseLatin1 (js '' <Anna>''))"
    by code_simp
  then have post: "\<forall>c \<in> set (normalizeDigitLikeText toUpperCaseLatin1 (js '' <Anna>'')). \<not> isDigit c"
    by (simp only: list_all_iff)
  have l: "luhnCheck (digitsOnly (js ''4111-1111 1111 1111''))"
    unfolding d by code_simp
  have lo: "13 \<le> length (digitsOnly (js ''4111-1111 1111 1111''))"
    unfolding d by (simp add: js_def)
  have hi: "length (digitsOnly (js ''4111-1111 1111 1111'')) \<le> 16"
    unfolding d by (simp add: js_def)
  from extractCardNumber_single_run [OF upperCaseLike_Latin1 r pre post lo hi l] show ?thesis
    unfolding d .
qed

text \<open>
  The claim as it was worded fails when the noise holds characters that the Normalizer
  reads as digits. \<open>ID 4111111111111111\<close> has no digit before its one run, which is
  Luhn-valid, and the result is \<open>1041111111111\<close>, a window of the normalized text
  \<open>10 4111111111111111\<close>. With U+00DF and a space before the same run the normalized
  text is \<open>55 4111111111111111\<close> and the result \<open>55411111111111\<close>.
\<close>

theorem extractCardNumber_single_run_counterexample:
  "digitsOnly (js ''ID '') = []
   \<and> isRun (js ''4111111111111111'')
   \<and> length (js ''4111111111111111'') = 16
   \<and> luhnCheck (js ''4111111111111111'')
   \<and> extractCardNumber toUpperCaseLatin1 (js ''ID '' @ js ''4111111111111111'') = js ''1041111111111''
   \<and> extractCardNumber toUpperCaseLatin1 (js ''ID '' @ js ''4111111111111111'') \<noteq> js ''4111111111111111''
   \<and> digitsOnly [0xDF, 0x20] = []
   \<and> extractCardNumber toUpperCaseLatin1 ([0xDF, 0x20] @ js ''4111111111111111'') = js ''55411111111111''"
  by code_simp

end
